theory Spec2Isabelle
  imports Complex_Main "HOL-Library.Word" "HOL-Library.Log_Nat"
begin

unbundle bit_operations_syntax

section \<open>Go values\<close>

text \<open>
  The package \<open>discordgo\<close> (file \<open>structs.go\<close>) is embedded function by function.
  Go's \<open>int64\<close> (and \<open>time.Duration\<close>, which is an \<open>int64\<close> count of nanoseconds) is a
  \<open>64 word\<close>: \<open>+\<close> and \<open>*\<close> wrap around as Go's do, \<open>sint\<close> reads the signed value.
  Go's \<open>int\<close> is taken at its 64-bit width. A pointer \<open>*T\<close> is a \<open>T option\<close> with
  \<open>None\<close> for \<open>nil\<close>, and a run-time panic is the \<open>Inl\<close> side of a sum.
\<close>

type_synonym int64 = "64 word"
type_synonym go_int = "64 word"
type_synonym byte = "8 word"

datatype panic = NilPointerDereference

datatype error = Error string

section \<open>Permission bits\<close>

text \<open>The constants of \<open>structs.go\<close>, lines 1334 to 1413, with the literals of the source.\<close>

definition PermissionReadMessages :: int64 where "PermissionReadMessages = 0x0000000000000400"
definition PermissionSendMessages :: int64 where "PermissionSendMessages = 0x0000000000000800"
definition PermissionSendTTSMessages :: int64 where "PermissionSendTTSMessages = 0x0000000000001000"
definition PermissionManageMessages :: int64 where "PermissionManageMessages = 0x0000000000002000"
definition PermissionEmbedLinks :: int64 where "PermissionEmbedLinks = 0x0000000000004000"
definition PermissionAttachFiles :: int64 where "PermissionAttachFiles = 0x0000000000008000"
definition PermissionReadMessageHistory :: int64 where "PermissionReadMessageHistory = 0x0000000000010000"
definition PermissionMentionEveryone :: int64 where "PermissionMentionEveryone = 0x0000000000020000"
definition PermissionUseExternalEmojis :: int64 where "PermissionUseExternalEmojis = 0x0000000000040000"
definition PermissionUseSlashCommands :: int64 where "PermissionUseSlashCommands = 0x0000000080000000"

definition PermissionVoicePrioritySpeaker :: int64 where "PermissionVoicePrioritySpeaker = 0x0000000000000100"
definition PermissionVoiceStreamVideo :: int64 where "PermissionVoiceStreamVideo = 0x0000000000000200"
definition PermissionVoiceConnect :: int64 where "PermissionVoiceConnect = 0x0000000000100000"
definition PermissionVoiceSpeak :: int64 where "PermissionVoiceSpeak = 0x0000000000200000"
definition PermissionVoiceMuteMembers :: int64 where "PermissionVoiceMuteMembers = 0x0000000000400000"
definition PermissionVoiceDeafenMembers :: int64 where "PermissionVoiceDeafenMembers = 0x0000000000800000"
definition PermissionVoiceMoveMembers :: int64 where "PermissionVoiceMoveMembers = 0x0000000001000000"
definition PermissionVoiceUseVAD :: int64 where "PermissionVoiceUseVAD = 0x0000000002000000"
definition PermissionVoiceRequestToSpeak :: int64 where "PermissionVoiceRequestToSpeak = 0x0000000100000000"

definition PermissionChangeNickname :: int64 where "PermissionChangeNickname = 0x0000000004000000"
definition PermissionManageNicknames :: int64 where "PermissionManageNicknames = 0x0000000008000000"
definition PermissionManageRoles :: int64 where "PermissionManageRoles = 0x0000000010000000"
definition PermissionManageWebhooks :: int64 where "PermissionManageWebhooks = 0x0000000020000000"
definition PermissionManageEmojis :: int64 where "PermissionManageEmojis = 0x0000000040000000"

definition PermissionCreateInstantInvite :: int64 where "PermissionCreateInstantInvite = 0x0000000000000001"
definition PermissionKickMembers :: int64 where "PermissionKickMembers = 0x0000000000000002"
definition PermissionBanMembers :: int64 where "PermissionBanMembers = 0x0000000000000004"
definition PermissionAdministrator :: int64 where "PermissionAdministrator = 0x0000000000000008"
definition PermissionManageChannels :: int64 where "PermissionManageChannels = 0x0000000000000010"
definition PermissionManageServer :: int64 where "PermissionManageServer = 0x0000000000000020"
definition PermissionAddReactions :: int64 where "PermissionAddReactions = 0x0000000000000040"
definition PermissionViewAuditLogs :: int64 where "PermissionViewAuditLogs = 0x0000000000000080"
definition PermissionViewChannel :: int64 where "PermissionViewChannel = 0x0000000000000400"
definition PermissionViewGuildInsights :: int64 where "PermissionViewGuildInsights = 0x0000000000080000"

definition PermissionAllText :: int64 where
  "PermissionAllText = PermissionViewChannel OR
     PermissionSendMessages OR
     PermissionSendTTSMessages OR
     PermissionManageMessages OR
     PermissionEmbedLinks OR
     PermissionAttachFiles OR
     PermissionReadMessageHistory OR
     PermissionMentionEveryone"

definition PermissionAllVoice :: int64 where
  "PermissionAllVoice = PermissionViewChannel OR
     PermissionVoiceConnect OR
     PermissionVoiceSpeak OR
     PermissionVoiceMuteMembers OR
     PermissionVoiceDeafenMembers OR
     PermissionVoiceMoveMembers OR
     PermissionVoiceUseVAD OR
     PermissionVoicePrioritySpeaker"

definition PermissionAllChannel :: int64 where
  "PermissionAllChannel = PermissionAllText OR
     PermissionAllVoice OR
     PermissionCreateInstantInvite OR
     PermissionManageRoles OR
     PermissionManageChannels OR
     PermissionAddReactions OR
     PermissionViewAuditLogs"

definition PermissionAll :: int64 where
  "PermissionAll = PermissionAllChannel OR
     PermissionKickMembers OR
     PermissionBanMembers OR
     PermissionManageServer OR
     PermissionAdministrator OR
     PermissionManageWebhooks OR
     PermissionManageEmojis"

text \<open>
  The bit positions of a mask, lowest first: the list form of a mask, used to state which
  bits a composite holds and that it holds no other.
\<close>

definition bits_of :: "int64 \<Rightarrow> nat list" where
  "bits_of w = filter (bit w) [0..<64]"

section \<open>Gateway intents\<close>

text \<open>\<open>type Intent int\<close> and its constants, lines 1488 to 1512; \<open>1 << n\<close> is \<open>push_bit n 1\<close>.\<close>

type_synonym Intent = go_int

definition IntentsGuilds :: Intent where "IntentsGuilds = push_bit 0 1"
definition IntentsGuildMembers :: Intent where "IntentsGuildMembers = push_bit 1 1"
definition IntentsGuildBans :: Intent where "IntentsGuildBans = push_bit 2 1"
definition IntentsGuildEmojis :: Intent where "IntentsGuildEmojis = push_bit 3 1"
definition IntentsGuildIntegrations :: Intent where "IntentsGuildIntegrations = push_bit 4 1"
definition IntentsGuildWebhooks :: Intent where "IntentsGuildWebhooks = push_bit 5 1"
definition IntentsGuildInvites :: Intent where "IntentsGuildInvites = push_bit 6 1"
definition IntentsGuildVoiceStates :: Intent where "IntentsGuildVoiceStates = push_bit 7 1"
definition IntentsGuildPresences :: Intent where "IntentsGuildPresences = push_bit 8 1"
definition IntentsGuildMessages :: Intent where "IntentsGuildMessages = push_bit 9 1"
definition IntentsGuildMessageReactions :: Intent where "IntentsGuildMessageReactions = push_bit 10 1"
definition IntentsGuildMessageTyping :: Intent where "IntentsGuildMessageTyping = push_bit 11 1"
definition IntentsDirectMessages :: Intent where "IntentsDirectMessages = push_bit 12 1"
definition IntentsDirectMessageReactions :: Intent where "IntentsDirectMessageReactions = push_bit 13 1"
definition IntentsDirectMessageTyping :: Intent where "IntentsDirectMessageTyping = push_bit 14 1"
definition IntentsGuildScheduledEvents :: Intent where "IntentsGuildScheduledEvents = push_bit 16 1"

definition IntentsAllWithoutPrivileged :: Intent where
  "IntentsAllWithoutPrivileged = IntentsGuilds OR
     IntentsGuildBans OR
     IntentsGuildEmojis OR
     IntentsGuildIntegrations OR
     IntentsGuildWebhooks OR
     IntentsGuildInvites OR
     IntentsGuildVoiceStates OR
     IntentsGuildMessages OR
     IntentsGuildMessageReactions OR
     IntentsGuildMessageTyping OR
     IntentsDirectMessages OR
     IntentsDirectMessageReactions OR
     IntentsDirectMessageTyping OR
     IntentsGuildScheduledEvents"

definition IntentsAll :: Intent where
  "IntentsAll = IntentsAllWithoutPrivileged OR
     IntentsGuildMembers OR
     IntentsGuildPresences"

definition IntentsNone :: Intent where "IntentsNone = 0"

definition MakeIntent :: "Intent \<Rightarrow> Intent" where
  "MakeIntent intents = intents"

section \<open>Floating point\<close>

text \<open>
  A \<open>float64\<close> is an IEEE 754 binary64 number. Every value the JSON decoder can store is
  finite (the decoder reports an error for a number that overflows), so a \<open>float64\<close> is
  modelled by the rational number it denotes, exactly. The representable ones are the
  fixed points of \<open>f64_round\<close>, rounding to the nearest number with a 53-bit significand
  (ties to the even significand, gradual underflow below \<open>2 powi -1022\<close>), which is how
  Go rounds the result of a floating-point operation and how the decoder reads a decimal
  numeral. Negative zero is identified with zero: every value here ends in an integer
  conversion, which cannot tell them apart.
\<close>

type_synonym float64 = rat

text \<open>For \<open>0 < x\<close>: the exponent \<open>e\<close> with \<open>2 powi e \<le> x < 2 powi (e + 1)\<close>.\<close>

definition ilog2 :: "rat \<Rightarrow> int" where
  "ilog2 x =
     (let (p, q) = quotient_of x;
          d = bitlen p - bitlen q
      in if 2 powi d \<le> x then d else d - 1)"

definition round_half_even :: "rat \<Rightarrow> int" where
  "round_half_even q =
     (let f = \<lfloor>q\<rfloor>;
          r = q - of_int f
      in if r < 1 / 2 then f
         else if 1 / 2 < r then f + 1
         else if even f then f else f + 1)"

definition f64_round :: "rat \<Rightarrow> float64" where
  "f64_round x =
     (if x = 0 then 0
      else
        let a = \<bar>x\<bar>;
            e = max (ilog2 a) (- 1022);
            u = 2 powi (e - 52)
        in sgn x * (of_int (round_half_even (a / u)) * u))"

definition is_float64 :: "rat \<Rightarrow> bool" where
  "is_float64 x \<longleftrightarrow> f64_round x = x \<and> \<bar>x\<bar> < 2 ^ 1024"

text \<open>
  Floating-point multiplication is the exact product, rounded. (The only product in this
  file is of a fraction below 1 in magnitude and 1000, far from overflow.)
\<close>

definition f64_mul :: "float64 \<Rightarrow> float64 \<Rightarrow> float64" where
  "f64_mul x y = f64_round (x * y)"

text \<open>The integer part of a number, rounding towards zero.\<close>

definition trunc_int :: "rat \<Rightarrow> int" where
  "trunc_int x = (if 0 \<le> x then \<lfloor>x\<rfloor> else \<lceil>x\<rceil>)"

text \<open>
  \<open>math.Modf\<close>: "Modf returns integer and fractional floating-point numbers that sum to
  f. Both values have the same sign as f." Both parts of a \<open>float64\<close> are again
  \<open>float64\<close>s, so no rounding takes place.
\<close>

definition Modf :: "float64 \<Rightarrow> float64 \<times> float64" where
  "Modf f = (let whole = of_int (trunc_int f) in (whole, f - whole))"

text \<open>
  The conversion \<open>int64(f)\<close> (and \<open>time.Duration(f)\<close>) of a floating-point value: Go
  discards the fraction (truncation towards zero). When the integer part does not fit, the
  Go specification leaves the result to the implementation; the value taken here is the
  one of the amd64 instruction, the most negative \<open>int64\<close>. No statement below depends on
  that choice.
\<close>

definition int64_of_float64 :: "float64 \<Rightarrow> int64" where
  "int64_of_float64 f =
     (let n = trunc_int f
      in if - (2 ^ 63) \<le> n \<and> n < 2 ^ 63 then word_of_int n else 0x8000000000000000)"

section \<open>Package time\<close>

text \<open>
  \<open>time.Duration\<close> is an \<open>int64\<close> count of nanoseconds, with the constants of package
  \<open>time\<close>. A \<open>time.Time\<close> is modelled by the instant it denotes, as the (unbounded) number
  of nanoseconds since the Unix epoch; \<open>time.Unix(sec, nsec)\<close> "returns the local Time
  corresponding to the given Unix time, sec seconds and nsec nanoseconds since January 1,
  1970 UTC".
\<close>

type_synonym Duration = int64

definition Nanosecond :: Duration where "Nanosecond = 1"
definition Microsecond :: Duration where "Microsecond = 1000 * Nanosecond"
definition Millisecond :: Duration where "Millisecond = 1000 * Microsecond"
definition Second :: Duration where "Second = 1000 * Millisecond"

text \<open>
  A duration read back in seconds: the exact quotient by \<open>10 ^ 9\<close>, with no rounding of
  its own.
\<close>

definition Seconds :: "Duration \<Rightarrow> rat" where
  "Seconds d = of_int (sint d) / 1000000000"

datatype Time = UnixNano int

definition time_Unix :: "int64 \<Rightarrow> int64 \<Rightarrow> Time" where
  "time_Unix sec nsec = UnixNano (sint sec * 1000000000 + sint nsec)"

section \<open>Package encoding/json\<close>

text \<open>
  \<open>json.Unmarshal(b, &v)\<close> belongs to the standard library; each \<open>UnmarshalJSON\<close> below
  takes it as a parameter. It receives the bytes and the value \<open>v\<close> points to, and returns
  the error (\<open>None\<close> for \<open>nil\<close>) together with what \<open>v\<close> holds afterwards. Methods are
  functions of the struct their receiver points to, returning that struct as they leave it.
\<close>

type_synonym 'v unmarshal = "byte list \<Rightarrow> 'v \<Rightarrow> error option \<times> 'v"

section \<open>Rich-presence timestamps\<close>

record TimeStamps =
  EndTimestamp :: int64
  StartTimestamp :: int64

text \<open>The anonymous struct \<open>temp\<close> of \<open>TimeStamps.UnmarshalJSON\<close>.\<close>

record TimeStamps_temp =
  End :: float64
  Start :: float64

definition TimeStamps_UnmarshalJSON ::
  "TimeStamps_temp unmarshal \<Rightarrow> TimeStamps \<Rightarrow> byte list \<Rightarrow> error option \<times> TimeStamps" where
  "TimeStamps_UnmarshalJSON json_Unmarshal t b =
     (let temp = \<lparr>End = 0, Start = 0\<rparr>;
          (err, temp) = json_Unmarshal b temp
      in if err \<noteq> None then (err, t)
         else
           let t = t\<lparr>EndTimestamp := int64_of_float64 (End temp)\<rparr>;
               t = t\<lparr>StartTimestamp := int64_of_float64 (Start temp)\<rparr>
           in (None, t))"

section \<open>Rate-limit responses\<close>

record TooManyRequests =
  Bucket :: string
  Message :: string
  RetryAfter :: Duration

text \<open>The anonymous struct \<open>u\<close> of \<open>TooManyRequests.UnmarshalJSON\<close>.\<close>

record TooManyRequests_u =
  Bucket :: string
  Message :: string
  RetryAfter :: float64

definition TooManyRequests_UnmarshalJSON ::
  "TooManyRequests_u unmarshal \<Rightarrow> TooManyRequests \<Rightarrow> byte list
     \<Rightarrow> error option \<times> TooManyRequests" where
  "TooManyRequests_UnmarshalJSON json_Unmarshal t b =
     (let u = \<lparr>TooManyRequests_u.Bucket = '''', TooManyRequests_u.Message = '''',
                TooManyRequests_u.RetryAfter = 0\<rparr>;
          (err, u) = json_Unmarshal b u
      in if err \<noteq> None then (err, t)
         else
           let t = t\<lparr>TooManyRequests.Bucket := TooManyRequests_u.Bucket u\<rparr>;
               t = t\<lparr>TooManyRequests.Message := TooManyRequests_u.Message u\<rparr>;
               (whole, frac) = Modf (TooManyRequests_u.RetryAfter u);
               t = t\<lparr>TooManyRequests.RetryAfter :=
                     int64_of_float64 whole * Second
                     + int64_of_float64 (f64_mul frac 1000) * Millisecond\<rparr>
           in (None, t))"

section \<open>Channels, roles and members\<close>

text \<open>
  The types \<open>Timestamp\<close> and \<open>Message\<close> are declared in other files of the package; the
  structs that hold them take them as type parameters.
\<close>

text \<open>
  Modelled from the spec: the struct \<open>User\<close> is declared outside \<open>structs.go\<close>. What this
  file reads of it is the field \<open>ID\<close>, the "member/user id" of the mention helpers, a
  string.
\<close>

record User =
  ID :: string

type_synonym ChannelType = go_int
type_synonym PermissionOverwriteType = go_int

record PermissionOverwrite =
  ID :: string
  Type :: PermissionOverwriteType
  Deny :: int64
  Allow :: int64

record ('timestamp, 'message) Channel =
  ID :: string
  GuildID :: string
  Name :: string
  Topic :: string
  Type :: ChannelType
  LastMessageID :: string
  LastPinTimestamp :: 'timestamp
  NSFW :: bool
  Icon :: string
  Position :: go_int
  Bitrate :: go_int
  Recipients :: "User option list"
  Messages :: "'message option list"
  PermissionOverwrites :: "PermissionOverwrite option list"
  UserLimit :: go_int
  ParentID :: string
  RateLimitPerUser :: go_int
  OwnerID :: string
  ApplicationID :: string

record Role =
  ID :: string
  Name :: string
  Managed :: bool
  Mentionable :: bool
  Hoist :: bool
  Color :: go_int
  Position :: go_int
  Permissions :: int64

record 'timestamp Member =
  GuildID :: string
  JoinedAt :: 'timestamp
  Nick :: string
  Deaf :: bool
  Mute :: bool
  User :: "User option"
  Roles :: "string list"
  PremiumSince :: 'timestamp
  Pending :: bool
  Permissions :: int64

text \<open>
  \<open>fmt.Sprintf\<close> for a format whose only verb is \<open>%s\<close> and whose operands are strings:
  each \<open>%s\<close> is replaced by the next operand, written out as it is, and every other
  byte of the format is copied. A verb without an operand prints \<open>%!s(MISSING)\<close>.
\<close>

fun Sprintf :: "string \<Rightarrow> string list \<Rightarrow> string" where
  "Sprintf [] a = []"
| "Sprintf [c] a = [c]"
| "Sprintf (c # d # format) a =
     (if c = CHR ''%'' \<and> d = CHR ''s''
      then (case a of
              [] \<Rightarrow> ''%!s(MISSING)'' @ Sprintf format []
            | s # a' \<Rightarrow> s @ Sprintf format a')
      else c # Sprintf (d # format) a)"

text \<open>
  The three \<open>Mention\<close> methods. The result is the string returned, or the panic Go raises
  when the method reads through a nil pointer.
\<close>

definition Channel_Mention :: "('timestamp, 'message) Channel \<Rightarrow> panic + string" where
  "Channel_Mention c = Inr (Sprintf ''<#%s>'' [Channel.ID c])"

definition Role_Mention :: "Role \<Rightarrow> panic + string" where
  "Role_Mention r = Inr (Sprintf ''<@&%s>'' [Role.ID r])"

definition Member_Mention :: "'timestamp Member \<Rightarrow> panic + string" where
  "Member_Mention m =
     (case Member.User m of
        None \<Rightarrow> Inl NilPointerDereference
      | Some user \<Rightarrow> Inr (''<@!'' @ User.ID user @ ''>''))"

section \<open>Activities\<close>

record Emoji =
  ID :: string
  Name :: string
  Roles :: "string list"
  User :: "User option"
  RequireColons :: bool
  Managed :: bool
  Animated :: bool
  Available :: bool

record Assets =
  LargeImageID :: string
  SmallImageID :: string
  LargeText :: string
  SmallText :: string

record Party =
  ID :: string
  Size :: "go_int list"

record Secrets =
  Join :: string
  Spectate :: string
  Match :: string

type_synonym ActivityType = go_int

record Activity =
  Name :: string
  Type :: ActivityType
  URL :: string
  CreatedAt :: Time
  ApplicationID :: string
  State :: string
  Details :: string
  Timestamps :: TimeStamps
  Emoji :: Emoji
  Party :: Party
  Assets :: Assets
  Secrets :: Secrets
  Instance :: bool
  Flags :: go_int

text \<open>The anonymous struct \<open>temp\<close> of \<open>Activity.UnmarshalJSON\<close>, and its zero value.\<close>

record Activity_temp =
  Name :: string
  Type :: ActivityType
  URL :: string
  CreatedAt :: int64
  ApplicationID :: string
  State :: string
  Details :: string
  Timestamps :: TimeStamps
  Emoji :: Emoji
  Party :: Party
  Assets :: Assets
  Secrets :: Secrets
  Instance :: bool
  Flags :: go_int

definition Activity_temp_zero :: Activity_temp where
  "Activity_temp_zero =
     \<lparr>Activity_temp.Name = '''', Activity_temp.Type = 0, Activity_temp.URL = '''',
      Activity_temp.CreatedAt = 0, Activity_temp.ApplicationID = '''',
      Activity_temp.State = '''', Activity_temp.Details = '''',
      Activity_temp.Timestamps = \<lparr>EndTimestamp = 0, StartTimestamp = 0\<rparr>,
      Activity_temp.Emoji =
        \<lparr>Emoji.ID = '''', Emoji.Name = '''', Emoji.Roles = [], Emoji.User = None,
         Emoji.RequireColons = False, Emoji.Managed = False, Emoji.Animated = False,
         Emoji.Available = False\<rparr>,
      Activity_temp.Party = \<lparr>Party.ID = '''', Party.Size = []\<rparr>,
      Activity_temp.Assets =
        \<lparr>LargeImageID = '''', SmallImageID = '''', LargeText = '''', SmallText = ''''\<rparr>,
      Activity_temp.Secrets = \<lparr>Join = '''', Spectate = '''', Match = ''''\<rparr>,
      Activity_temp.Instance = False, Activity_temp.Flags = 0\<rparr>"

definition Activity_UnmarshalJSON ::
  "Activity_temp unmarshal \<Rightarrow> Activity \<Rightarrow> byte list \<Rightarrow> error option \<times> Activity" where
  "Activity_UnmarshalJSON json_Unmarshal activity b =
     (let temp = Activity_temp_zero;
          (err, temp) = json_Unmarshal b temp
      in if err \<noteq> None then (err, activity)
         else
           let activity = activity\<lparr>Activity.CreatedAt :=
                            time_Unix 0 (Activity_temp.CreatedAt temp * 1000000)\<rparr>;
               activity = activity\<lparr>Activity.ApplicationID := Activity_temp.ApplicationID temp\<rparr>;
               activity = activity\<lparr>Activity.Assets := Activity_temp.Assets temp\<rparr>;
               activity = activity\<lparr>Activity.Details := Activity_temp.Details temp\<rparr>;
               activity = activity\<lparr>Activity.Emoji := Activity_temp.Emoji temp\<rparr>;
               activity = activity\<lparr>Activity.Flags := Activity_temp.Flags temp\<rparr>;
               activity = activity\<lparr>Activity.Instance := Activity_temp.Instance temp\<rparr>;
               activity = activity\<lparr>Activity.Name := Activity_temp.Name temp\<rparr>;
               activity = activity\<lparr>Activity.Party := Activity_temp.Party temp\<rparr>;
               activity = activity\<lparr>Activity.Secrets := Activity_temp.Secrets temp\<rparr>;
               activity = activity\<lparr>Activity.State := Activity_temp.State temp\<rparr>;
               activity = activity\<lparr>Activity.Timestamps := Activity_temp.Timestamps temp\<rparr>;
               activity = activity\<lparr>Activity.Type := Activity_temp.Type temp\<rparr>;
               activity = activity\<lparr>Activity.URL := Activity_temp.URL temp\<rparr>
           in (None, activity))"

section \<open>Checking a permission\<close>

text \<open>
  Modelled from the spec: \<open>structs.go\<close> holds no function \<open>hasPermission\<close>; the comment on
  \<open>Role.Permissions\<close> only says that "the presence of a certain permission can be checked
  by performing a bitwise AND between this int and the permission". The operation is the
  one of the specification, section 4.1: "\<open>hasPermission(mask, bit)\<close> returns true iff
  \<open>(mask & bit) == bit\<close>".
\<close>

definition hasPermission :: "int64 \<Rightarrow> int64 \<Rightarrow> bool" where
  "hasPermission m b \<longleftrightarrow> m AND b = b"

section \<open>Sample values\<close>

text \<open>
  The values at which the theorems below are instantiated. \<open>json_yields v\<close> stands for
  \<open>json.Unmarshal\<close> on an input that parses, without error, to the struct \<open>v\<close>;
  \<open>json_fails e\<close> for \<open>json.Unmarshal\<close> on an input it rejects with the error \<open>e\<close>,
  leaving the struct as it was.
\<close>

definition json_yields :: "'v \<Rightarrow> 'v unmarshal" where
  "json_yields v b v0 = (None, v)"

definition json_fails :: "error \<Rightarrow> 'v unmarshal" where
  "json_fails e b v0 = (Some e, v0)"

definition a_TooManyRequests :: TooManyRequests where
  "a_TooManyRequests =
     \<lparr>TooManyRequests.Bucket = ''old'', TooManyRequests.Message = ''old'',
      TooManyRequests.RetryAfter = 7\<rparr>"

definition retry_after_payload :: "float64 \<Rightarrow> TooManyRequests_u" where
  "retry_after_payload x =
     \<lparr>TooManyRequests_u.Bucket = ''abc'', TooManyRequests_u.Message = ''You are being rate limited.'',
      TooManyRequests_u.RetryAfter = x\<rparr>"

definition a_TimeStamps :: TimeStamps where
  "a_TimeStamps = \<lparr>EndTimestamp = 1, StartTimestamp = 2\<rparr>"

definition an_Activity :: Activity where
  "an_Activity =
     \<lparr>Activity.Name = ''old'', Activity.Type = 1, Activity.URL = ''old'',
      Activity.CreatedAt = UnixNano 5, Activity.ApplicationID = ''old'',
      Activity.State = ''old'', Activity.Details = ''old'',
      Activity.Timestamps = \<lparr>EndTimestamp = 1, StartTimestamp = 2\<rparr>,
      Activity.Emoji = Activity_temp.Emoji Activity_temp_zero,
      Activity.Party = \<lparr>Party.ID = ''old'', Party.Size = [1, 2]\<rparr>,
      Activity.Assets = Activity_temp.Assets Activity_temp_zero,
      Activity.Secrets = Activity_temp.Secrets Activity_temp_zero,
      Activity.Instance = True, Activity.Flags = 3\<rparr>"

definition activity_payload :: "int64 \<Rightarrow> Activity_temp" where
  "activity_payload created_at =
     Activity_temp_zero\<lparr>Activity_temp.Name := ''Chess'',
       Activity_temp.CreatedAt := created_at,
       Activity_temp.Timestamps := \<lparr>EndTimestamp = 0, StartTimestamp = 1609459200000\<rparr>,
       Activity_temp.Party := \<lparr>Party.ID = ''p1'', Party.Size = [1, 4]\<rparr>\<rparr>"

definition a_Channel :: "string \<Rightarrow> (string, unit) Channel" where
  "a_Channel i =
     \<lparr>Channel.ID = i, Channel.GuildID = ''41771983423143937'', Channel.Name = ''general'',
      Channel.Topic = '''', Channel.Type = 0, Channel.LastMessageID = '''',
      Channel.LastPinTimestamp = '''', Channel.NSFW = False, Channel.Icon = '''',
      Channel.Position = 0, Channel.Bitrate = 0, Channel.Recipients = [],
      Channel.Messages = [], Channel.PermissionOverwrites = [], Channel.UserLimit = 0,
      Channel.ParentID = '''', Channel.RateLimitPerUser = 0, Channel.OwnerID = '''',
      Channel.ApplicationID = ''''\<rparr>"

definition a_Role :: "string \<Rightarrow> Role" where
  "a_Role i =
     \<lparr>Role.ID = i, Role.Name = ''moderator'', Role.Managed = False, Role.Mentionable = True,
      Role.Hoist = False, Role.Color = 0, Role.Position = 1,
      Role.Permissions = PermissionAllText\<rparr>"

definition a_Member :: "User option \<Rightarrow> string Member" where
  "a_Member user =
     \<lparr>Member.GuildID = ''41771983423143937'', Member.JoinedAt = ''2015-04-26T06:26:56Z'',
      Member.Nick = '''', Member.Deaf = False, Member.Mute = False, Member.User = user,
      Member.Roles = [], Member.PremiumSince = '''', Member.Pending = False,
      Member.Permissions = 0\<rparr>"

section \<open>Properties of the permission bits\<close>

lemmas text_bits =
  PermissionViewChannel_def PermissionSendMessages_def PermissionSendTTSMessages_def
  PermissionManageMessages_def PermissionEmbedLinks_def PermissionAttachFiles_def
  PermissionReadMessageHistory_def PermissionMentionEveryone_def

lemmas voice_bits =
  PermissionVoiceConnect_def PermissionVoiceSpeak_def PermissionVoiceMuteMembers_def
  PermissionVoiceDeafenMembers_def PermissionVoiceMoveMembers_def PermissionVoiceUseVAD_def
  PermissionVoicePrioritySpeaker_def

lemmas general_bits =
  PermissionCreateInstantInvite_def PermissionManageRoles_def PermissionManageChannels_def
  PermissionAddReactions_def PermissionViewAuditLogs_def PermissionKickMembers_def
  PermissionBanMembers_def PermissionManageServer_def PermissionAdministrator_def
  PermissionManageWebhooks_def PermissionManageEmojis_def

lemma PermissionAllText_value: "PermissionAllText = 0x3FC00"
  by (simp add: PermissionAllText_def text_bits)

lemma PermissionAllVoice_value: "PermissionAllVoice = 0x3F00500"
  by (simp add: PermissionAllVoice_def text_bits voice_bits)

lemma PermissionAllChannel_value: "PermissionAllChannel = 0x13F3FDD1"
  by (simp add: PermissionAllChannel_def PermissionAllText_value PermissionAllVoice_value
      general_bits)

lemma PermissionAll_value: "PermissionAll = 0x73F3FDFF"
  by (simp add: PermissionAll_def PermissionAllChannel_value general_bits)

lemma bits_of_PermissionAllText:
  "bits_of PermissionAllText = [10, 11, 12, 13, 14, 15, 16, 17]"
  unfolding PermissionAllText_value bits_of_def by code_simp

lemma bits_of_PermissionAllVoice:
  "bits_of PermissionAllVoice = [8, 10, 20, 21, 22, 23, 24, 25]"
  unfolding PermissionAllVoice_value bits_of_def by code_simp

lemma bits_of_PermissionAllChannel:
  "bits_of PermissionAllChannel =
     [0, 4, 6, 7, 8, 10, 11, 12, 13, 14, 15, 16, 17, 20, 21, 22, 23, 24, 25, 28]"
  unfolding PermissionAllChannel_value bits_of_def by code_simp

lemma bits_of_PermissionAll:
  "bits_of PermissionAll =
     [0, 1, 2, 3, 4, 5, 6, 7, 8, 10, 11, 12, 13, 14, 15, 16, 17, 20, 21, 22, 23, 24, 25,
      28, 29, 30]"
  unfolding PermissionAll_value bits_of_def by code_simp

text \<open>
  Claim C1. Each composite permission constant is the bitwise OR of exactly its documented
  members: \<open>PermissionAllText\<close> of the eight text bits, \<open>PermissionAllVoice\<close> of
  \<open>PermissionViewChannel\<close> and the seven voice bits, \<open>PermissionAllChannel\<close> of the two
  former and five channel-management bits, \<open>PermissionAll\<close> of \<open>PermissionAllChannel\<close> and
  six guild-management bits. No composite has a bit outside its union: masking the union
  away leaves zero, and the bit positions set in each composite are exactly the listed ones
  (so, for instance, \<open>PermissionUseExternalEmojis\<close>, bit 18, is in none of them).
\<close>

theorem composite_permissions_are_unions:
  "PermissionAllText =
     (PermissionViewChannel OR PermissionSendMessages OR PermissionSendTTSMessages OR
      PermissionManageMessages OR PermissionEmbedLinks OR PermissionAttachFiles OR
      PermissionReadMessageHistory OR PermissionMentionEveryone)
   \<and> PermissionAllVoice =
     (PermissionViewChannel OR PermissionVoiceConnect OR PermissionVoiceSpeak OR
      PermissionVoiceMuteMembers OR PermissionVoiceDeafenMembers OR
      PermissionVoiceMoveMembers OR PermissionVoiceUseVAD OR PermissionVoicePrioritySpeaker)
   \<and> PermissionAllChannel =
     (PermissionAllText OR PermissionAllVoice OR PermissionCreateInstantInvite OR
      PermissionManageRoles OR PermissionManageChannels OR PermissionAddReactions OR
      PermissionViewAuditLogs)
   \<and> PermissionAll =
     (PermissionAllChannel OR PermissionKickMembers OR PermissionBanMembers OR
      PermissionManageServer OR PermissionAdministrator OR PermissionManageWebhooks OR
      PermissionManageEmojis)
   \<and> PermissionAllText AND NOT
     (PermissionViewChannel OR PermissionSendMessages OR PermissionSendTTSMessages OR
      PermissionManageMessages OR PermissionEmbedLinks OR PermissionAttachFiles OR
      PermissionReadMessageHistory OR PermissionMentionEveryone) = 0
   \<and> PermissionAllVoice AND NOT
     (PermissionViewChannel OR PermissionVoiceConnect OR PermissionVoiceSpeak OR
      PermissionVoiceMuteMembers OR PermissionVoiceDeafenMembers OR
      PermissionVoiceMoveMembers OR PermissionVoiceUseVAD OR PermissionVoicePrioritySpeaker) = 0
   \<and> PermissionAllChannel AND NOT
     (PermissionAllText OR PermissionAllVoice OR PermissionCreateInstantInvite OR
      PermissionManageRoles OR PermissionManageChannels OR PermissionAddReactions OR
      PermissionViewAuditLogs) = 0
   \<and> PermissionAll AND NOT
     (PermissionAllChannel OR PermissionKickMembers OR PermissionBanMembers OR
      PermissionManageServer OR PermissionAdministrator OR PermissionManageWebhooks OR
      PermissionManageEmojis) = 0
   \<and> bits_of PermissionAllText = [10, 11, 12, 13, 14, 15, 16, 17]
   \<and> bits_of PermissionAllVoice = [8, 10, 20, 21, 22, 23, 24, 25]
   \<and> bits_of PermissionAllChannel =
     [0, 4, 6, 7, 8, 10, 11, 12, 13, 14, 15, 16, 17, 20, 21, 22, 23, 24, 25, 28]
   \<and> bits_of PermissionAll =
     [0, 1, 2, 3, 4, 5, 6, 7, 8, 10, 11, 12, 13, 14, 15, 16, 17, 20, 21, 22, 23, 24, 25,
      28, 29, 30]"
proof -
  have eq_text: "PermissionAllText =
     (PermissionViewChannel OR PermissionSendMessages OR PermissionSendTTSMessages OR
      PermissionManageMessages OR PermissionEmbedLinks OR PermissionAttachFiles OR
      PermissionReadMessageHistory OR PermissionMentionEveryone)"
    by (simp only: PermissionAllText_def)
  have eq_voice: "PermissionAllVoice =
     (PermissionViewChannel OR PermissionVoiceConnect OR PermissionVoiceSpeak OR
      PermissionVoiceMuteMembers OR PermissionVoiceDeafenMembers OR
      PermissionVoiceMoveMembers OR PermissionVoiceUseVAD OR PermissionVoicePrioritySpeaker)"
    by (simp only: PermissionAllVoice_def)
  have eq_channel: "PermissionAllChannel =
     (PermissionAllText OR PermissionAllVoice OR PermissionCreateInstantInvite OR
      PermissionManageRoles OR PermissionManageChannels OR PermissionAddReactions OR
      PermissionViewAuditLogs)"
    by (simp only: PermissionAllChannel_def)
  have eq_all: "PermissionAll =
     (PermissionAllChannel OR PermissionKickMembers OR PermissionBanMembers OR
      PermissionManageServer OR PermissionAdministrator OR PermissionManageWebhooks OR
      PermissionManageEmojis)"
    by (simp only: PermissionAll_def)
  have outside: "x AND NOT x = 0" for x :: int64
    by simp
  show ?thesis
    using eq_text eq_voice eq_channel eq_all
      outside [of PermissionAllText] outside [of PermissionAllVoice]
      outside [of PermissionAllChannel] outside [of PermissionAll]
      bits_of_PermissionAllText bits_of_PermissionAllVoice
      bits_of_PermissionAllChannel bits_of_PermissionAll
    by (simp only: simp_thms)
qed

section \<open>Properties of the intent bits\<close>

lemmas unprivileged_intents =
  IntentsGuilds_def IntentsGuildBans_def IntentsGuildEmojis_def IntentsGuildIntegrations_def
  IntentsGuildWebhooks_def IntentsGuildInvites_def IntentsGuildVoiceStates_def
  IntentsGuildMessages_def IntentsGuildMessageReactions_def IntentsGuildMessageTyping_def
  IntentsDirectMessages_def IntentsDirectMessageReactions_def IntentsDirectMessageTyping_def
  IntentsGuildScheduledEvents_def

lemma IntentsAllWithoutPrivileged_value: "IntentsAllWithoutPrivileged = 0x17EFD"
  by (simp add: IntentsAllWithoutPrivileged_def unprivileged_intents)

lemma IntentsAll_value: "IntentsAll = 0x17FFF"
  by (simp add: IntentsAll_def IntentsAllWithoutPrivileged_value IntentsGuildMembers_def
      IntentsGuildPresences_def)

text \<open>
  Claim C2. The two privileged intent bits, \<open>IntentsGuildMembers\<close> (bit 1) and
  \<open>IntentsGuildPresences\<close> (bit 8), are absent from \<open>IntentsAllWithoutPrivileged\<close> and
  present in \<open>IntentsAll\<close>.
\<close>

theorem privileged_intents_only_in_IntentsAll:
  "IntentsAllWithoutPrivileged AND IntentsGuildMembers = 0
   \<and> IntentsAllWithoutPrivileged AND IntentsGuildPresences = 0
   \<and> IntentsAll AND IntentsGuildMembers = IntentsGuildMembers
   \<and> IntentsAll AND IntentsGuildPresences = IntentsGuildPresences"
  by (simp add: IntentsAllWithoutPrivileged_value IntentsAll_value IntentsGuildMembers_def
      IntentsGuildPresences_def)

section \<open>Rounding to a float64\<close>

lemma is_float64I: "f64_round x = x \<Longrightarrow> \<bar>x\<bar> < 2 ^ 1024 \<Longrightarrow> is_float64 x"
  by (simp add: is_float64_def)

text \<open>
  The rounding on known values: the \<open>float64\<close> nearest to one tenth is
  \<open>0x1.999999999999ap-4\<close>, and a tie goes to the even significand.
\<close>

lemma f64_round_tenth: "f64_round (1 / 10) = 3602879701896397 / 36028797018963968"
  by code_simp

lemma f64_round_ties_to_even:
  "f64_round 9007199254740993 = 9007199254740992"
  "f64_round 9007199254740995 = 9007199254740996"
  by code_simp+

lemma round_half_even_ge: "of_int n \<le> q \<Longrightarrow> n \<le> round_half_even q"
proof -
  assume "of_int n \<le> q"
  then have "n \<le> \<lfloor>q\<rfloor>" by (simp add: le_floor_iff)
  moreover have "\<lfloor>q\<rfloor> \<le> round_half_even q"
    by (simp add: round_half_even_def Let_def)
  ultimately show ?thesis by linarith
qed

lemma round_half_even_le: "q \<le> of_int n \<Longrightarrow> round_half_even q \<le> n"
proof (cases "q = of_int n")
  case True
  then show ?thesis by (simp add: round_half_even_def Let_def)
next
  case False
  assume "q \<le> of_int n"
  with False have "q < of_int n" by simp
  then have "\<lfloor>q\<rfloor> < n" by (simp add: floor_less_iff)
  moreover have "round_half_even q \<le> \<lfloor>q\<rfloor> + 1"
    by (simp add: round_half_even_def Let_def)
  ultimately show ?thesis by linarith
qed

lemma ilog2_le:
  assumes "0 < x"
  shows "2 powi (ilog2 x) \<le> x"
proof -
  obtain p q where pq: "quotient_of x = (p, q)" by (cases "quotient_of x")
  have q: "0 < q" using pq quotient_of_denom_pos by blast
  have x: "x = of_int p / of_int q" using pq by (simp add: quotient_of_div)
  have p: "0 < p" using assms q x by (simp add: zero_less_divide_iff)
  let ?d = "bitlen p - bitlen q"
  show ?thesis
  proof (cases "2 powi ?d \<le> x")
    case True
    then show ?thesis by (simp add: ilog2_def pq)
  next
    case False
    then have e: "ilog2 x = ?d - 1" by (simp add: ilog2_def pq)
    have bp: "2 ^ nat (bitlen p - 1) \<le> p" using bitlen_bounds [OF p] by simp
    have bq: "q < 2 ^ nat (bitlen q)" using bitlen_bounds [OF q] by simp
    have bp1: "1 \<le> bitlen p" using p bitlen_bounds [of p] 
      by (smt (verit) bitlen_nonneg bitlen_eq_zero_iff)
    have bq0: "0 \<le> bitlen q" by (rule bitlen_nonneg)
    have "(2::rat) powi (?d - 1) = 2 powi (bitlen p - 1) / 2 powi (bitlen q)"
      by (simp add: power_int_diff)
    also have "\<dots> = 2 ^ nat (bitlen p - 1) / 2 ^ nat (bitlen q)"
      using bp1 bq0 by (simp add: power_int_def)
    also have "\<dots> \<le> of_int p / 2 ^ nat (bitlen q)"
    proof -
      have "(of_int (2 ^ nat (bitlen p - 1)) :: rat) \<le> of_int p"
        using bp by (simp only: of_int_le_iff)
      then show ?thesis by (simp add: divide_right_mono)
    qed
    also have "\<dots> \<le> of_int p / of_int q"
    proof -
      have "(of_int q :: rat) \<le> of_int (2 ^ nat (bitlen q))"
        using bq by (simp only: of_int_le_iff)
      then show ?thesis using p q by (simp add: frac_le)
    qed
    finally show ?thesis using e x by simp
  qed
qed

lemma ilog2_gt:
  assumes "0 < x"
  shows "x < 2 powi (ilog2 x + 1)"
proof -
  obtain p q where pq: "quotient_of x = (p, q)" by (cases "quotient_of x")
  have q: "0 < q" using pq quotient_of_denom_pos by blast
  have x: "x = of_int p / of_int q" using pq by (simp add: quotient_of_div)
  have p: "0 < p" using assms q x by (simp add: zero_less_divide_iff)
  let ?d = "bitlen p - bitlen q"
  show ?thesis
  proof (cases "2 powi ?d \<le> x")
    case False
    then show ?thesis by (simp add: ilog2_def pq)
  next
    case True
    then have e: "ilog2 x = ?d" by (simp add: ilog2_def pq)
    have bp: "p < 2 ^ nat (bitlen p)" using bitlen_bounds [OF p] by simp
    have bq: "2 ^ nat (bitlen q - 1) \<le> q" using bitlen_bounds [OF q] by simp
    have bq1: "1 \<le> bitlen q" using q bitlen_bounds [of q]
      by (smt (verit) bitlen_nonneg bitlen_eq_zero_iff)
    have bp0: "0 \<le> bitlen p" by (rule bitlen_nonneg)
    have "x < 2 ^ nat (bitlen p) / of_int q"
    proof -
      have "(of_int p :: rat) < of_int (2 ^ nat (bitlen p))"
        using bp by (simp only: of_int_less_iff)
      then show ?thesis using q by (simp add: x divide_strict_right_mono)
    qed
    also have "\<dots> \<le> 2 ^ nat (bitlen p) / 2 ^ nat (bitlen q - 1)"
    proof -
      have "(of_int (2 ^ nat (bitlen q - 1)) :: rat) \<le> of_int q"
        using bq by (simp only: of_int_le_iff)
      then show ?thesis by (simp add: frac_le)
    qed
    also have "\<dots> = 2 powi (bitlen p) / 2 powi (bitlen q - 1)"
      using bq1 bp0 by (simp add: power_int_def)
    also have "\<dots> = 2 powi (?d + 1)"
      by (simp add: power_int_diff [symmetric] algebra_simps)
    finally show ?thesis using e by simp
  qed
qed

lemma ilog2_less:
  assumes "0 < x" "x < 2 ^ n"
  shows "ilog2 x < int n"
proof (rule ccontr)
  assume "\<not> ilog2 x < int n"
  then have "int n \<le> ilog2 x" by simp
  then have "(2::rat) powi (int n) \<le> 2 powi (ilog2 x)"
    by (intro power_int_increasing) auto
  with ilog2_le [OF assms(1)] assms(2) show False by simp
qed

lemma f64_round_scaled:
  assumes "0 < y" "y < 2 ^ 52"
  obtains j where "f64_round y = of_int (round_half_even (y * 2 ^ j)) / 2 ^ j"
proof -
  let ?e = "max (ilog2 y) (- 1022)"
  have "ilog2 y < 52" using ilog2_less [OF assms] by simp
  then have le: "?e - 52 \<le> 0" by simp
  define j where "j = nat (52 - ?e)"
  have u: "(2::rat) powi (?e - 52) = 1 / 2 ^ j"
  proof -
    have "?e - 52 = - int j" using le by (simp add: j_def)
    then have "(2::rat) powi (?e - 52) = 2 powi (- int j)" by (simp only:)
    also have "\<dots> = 1 / 2 ^ j" by (simp add: power_int_minus inverse_eq_divide)
    finally show ?thesis .
  qed
  have "f64_round y = of_int (round_half_even (y * 2 ^ j)) / 2 ^ j"
    using assms(1) by (simp add: f64_round_def Let_def u)
  then show ?thesis by (rule that)
qed

lemma f64_round_ge_int:
  assumes "0 \<le> y" "y < 2 ^ 52" "of_int n \<le> y"
  shows "of_int n \<le> f64_round y"
proof (cases "y = 0")
  case True
  with assms show ?thesis by (simp add: f64_round_def)
next
  case False
  with assms have y: "0 < y" by simp
  from f64_round_scaled [OF y assms(2)] obtain j
    where j: "f64_round y = of_int (round_half_even (y * 2 ^ j)) / 2 ^ j" .
  have "of_int (n * 2 ^ j) \<le> y * 2 ^ j" using assms(3) by simp
  then have "n * 2 ^ j \<le> round_half_even (y * 2 ^ j)" by (rule round_half_even_ge)
  then have "(of_int (n * 2 ^ j) :: rat) \<le> of_int (round_half_even (y * 2 ^ j))"
    by (simp only: of_int_le_iff)
  then show ?thesis by (simp add: j pos_le_divide_eq)
qed

lemma f64_round_le_int:
  assumes "0 \<le> y" "y < 2 ^ 52" "y \<le> of_int n"
  shows "f64_round y \<le> of_int n"
proof (cases "y = 0")
  case True
  with assms show ?thesis by (simp add: f64_round_def)
next
  case False
  with assms have y: "0 < y" by simp
  from f64_round_scaled [OF y assms(2)] obtain j
    where j: "f64_round y = of_int (round_half_even (y * 2 ^ j)) / 2 ^ j" .
  have "y * 2 ^ j \<le> of_int (n * 2 ^ j)" using assms(3) by simp
  then have "round_half_even (y * 2 ^ j) \<le> n * 2 ^ j" by (rule round_half_even_le)
  then have "(of_int (round_half_even (y * 2 ^ j)) :: rat) \<le> of_int (n * 2 ^ j)"
    by (simp only: of_int_le_iff)
  then show ?thesis by (simp add: j pos_divide_le_eq)
qed

text \<open>A \<open>float64\<close> of magnitude \<open>2 ^ 52\<close> or more has no fraction.\<close>

lemma float64_large_is_integer:
  assumes "is_float64 f" "2 ^ 52 \<le> \<bar>f\<bar>"
  shows "of_int \<lfloor>f\<rfloor> = f"
proof -
  let ?a = "\<bar>f\<bar>"
  have a: "0 < ?a" by (rule less_le_trans [OF _ assms(2)]) simp
  then have f0: "f \<noteq> 0" by simp
  have lt: "(2::rat) powi 52 < 2 powi (ilog2 ?a + 1)"
    using ilog2_gt [OF a] assms(2) by simp
  have "52 < ilog2 ?a + 1"
  proof (rule ccontr)
    assume "\<not> 52 < ilog2 ?a + 1"
    then have "ilog2 ?a + 1 \<le> 52" by simp
    then have "(2::rat) powi (ilog2 ?a + 1) \<le> 2 powi 52"
      by (intro power_int_increasing) auto
    with lt show False by simp
  qed
  then have ge: "52 \<le> ilog2 ?a" by simp
  define k where "k = nat (ilog2 ?a - 52)"
  define n where "n = round_half_even (?a / 2 ^ k)"
  have e: "max (ilog2 ?a) (- 1022) - 52 = int k" using ge by (simp add: k_def)
  have u: "(2::rat) powi (max (ilog2 ?a) (- 1022) - 52) = 2 ^ k"
    unfolding e by simp
  have "f64_round f = sgn f * (of_int n * 2 ^ k)"
    using f0 by (simp only: f64_round_def Let_def u n_def if_False)
  also have "\<dots> = of_int (sgn \<lfloor>f\<rfloor> * 0 + (if 0 < f then 1 else - 1) * (n * 2 ^ k))"
    using f0 by (simp add: sgn_if)
  finally have "f = of_int ((if 0 < f then 1 else - 1) * (n * 2 ^ k))"
    using assms(1) by (simp add: is_float64_def)
  then show ?thesis by (metis floor_of_int)
qed

lemma floor_f64_round_bounds:
  assumes "0 \<le> y" "y < 1000"
  shows "\<lfloor>y\<rfloor> \<le> \<lfloor>f64_round y\<rfloor>" "\<lfloor>f64_round y\<rfloor> \<le> \<lfloor>y\<rfloor> + 1"
    "\<bar>of_int \<lfloor>f64_round y\<rfloor> - y\<bar> < 1" "0 \<le> f64_round y"
proof -
  have small: "y < 2 ^ 52" using assms(2) by simp
  have lo: "of_int \<lfloor>y\<rfloor> \<le> f64_round y"
    by (rule f64_round_ge_int [OF assms(1) small]) simp
  have hi: "f64_round y \<le> of_int (\<lfloor>y\<rfloor> + 1)"
    by (rule f64_round_le_int [OF assms(1) small]) linarith
  show a: "\<lfloor>y\<rfloor> \<le> \<lfloor>f64_round y\<rfloor>" using lo by (simp add: le_floor_iff)
  show b: "\<lfloor>f64_round y\<rfloor> \<le> \<lfloor>y\<rfloor> + 1" using floor_mono [OF hi] by simp
  show "0 \<le> f64_round y" using f64_round_ge_int [OF assms(1) small, of 0] assms(1) by simp
  show "\<bar>of_int \<lfloor>f64_round y\<rfloor> - y\<bar> < 1"
  proof (cases "\<lfloor>f64_round y\<rfloor> = \<lfloor>y\<rfloor>")
    case True
    then show ?thesis by (simp add: abs_less_iff) linarith
  next
    case False
    with a b have up: "\<lfloor>f64_round y\<rfloor> = \<lfloor>y\<rfloor> + 1" by linarith
    have "y \<noteq> of_int \<lfloor>y\<rfloor>"
    proof
      assume eq: "y = of_int \<lfloor>y\<rfloor>"
      have "f64_round y \<le> of_int \<lfloor>y\<rfloor>"
        by (rule f64_round_le_int [OF assms(1) small]) (use eq in simp)
      then have "\<lfloor>f64_round y\<rfloor> \<le> \<lfloor>y\<rfloor>" using floor_mono by fastforce
      with up show False by simp
    qed
    then have "of_int \<lfloor>y\<rfloor> < y" using of_int_floor_le [of y] by (auto simp: less_le)
    then show ?thesis using up by (simp add: abs_less_iff) linarith
  qed
qed

section \<open>Conversions and durations\<close>

lemma sint_word_of_int_64:
  assumes "- (2 ^ 63) \<le> k" "k < 2 ^ 63"
  shows "sint (word_of_int k :: 64 word) = k"
  using assms by (simp add: sint_sbintrunc' signed_take_bit_int_eq_self)

lemma Second_eq: "Second = 1000000000"
  by (simp add: Second_def Millisecond_def Microsecond_def Nanosecond_def)

lemma Millisecond_eq: "Millisecond = 1000000"
  by (simp add: Millisecond_def Microsecond_def Nanosecond_def)

lemma int64_of_float64_in_range:
  assumes "- (2 ^ 63) \<le> trunc_int f" "trunc_int f < 2 ^ 63"
  shows "int64_of_float64 f = word_of_int (trunc_int f)"
  using assms by (simp add: int64_of_float64_def Let_def)

lemma trunc_int_of_int: "trunc_int (of_int n) = n"
  by (simp add: trunc_int_def)

lemma sint_int64_of_float64:
  assumes "- (2 ^ 63) \<le> f" "f < 2 ^ 63"
  shows "sint (int64_of_float64 f) = trunc_int f"
proof -
  have lo: "- (2 ^ 63) \<le> trunc_int f"
  proof (cases "0 \<le> f")
    case True
    then have "0 \<le> trunc_int f" by (simp add: trunc_int_def)
    then show ?thesis by simp
  next
    case False
    have "(of_int (- (2 ^ 63)) :: rat) \<le> f" using assms(1) by simp
    then have "- (2 ^ 63) \<le> \<lceil>f\<rceil>" by (simp only: le_ceiling_iff)
    with False show ?thesis by (simp add: trunc_int_def)
  qed
  have hi: "trunc_int f < 2 ^ 63"
  proof (cases "0 \<le> f")
    case True
    have "f < of_int (2 ^ 63)" using assms(2) by simp
    then have "\<lfloor>f\<rfloor> < 2 ^ 63" by (simp only: floor_less_iff)
    with True show ?thesis by (simp add: trunc_int_def)
  next
    case False
    then have "\<lceil>f\<rceil> \<le> 0" by (simp add: ceiling_le_iff)
    with False show ?thesis by (simp add: trunc_int_def)
  qed
  show ?thesis
    using lo hi by (simp add: int64_of_float64_in_range sint_word_of_int_64)
qed

lemma Modf_nonneg:
  assumes "0 \<le> x"
  shows "Modf x = (of_int \<lfloor>x\<rfloor>, x - of_int \<lfloor>x\<rfloor>)"
  using assms by (simp add: Modf_def trunc_int_def Let_def)

lemma retry_after_duration:
  fixes x :: rat
  assumes "0 \<le> x" "x < 9223372036"
  defines "y \<equiv> (x - of_int \<lfloor>x\<rfloor>) * 1000"
  defines "d \<equiv> int64_of_float64 (of_int \<lfloor>x\<rfloor>) * Second
               + int64_of_float64 (f64_mul (x - of_int \<lfloor>x\<rfloor>) 1000) * Millisecond"
  shows "sint d = \<lfloor>x\<rfloor> * 1000000000 + \<lfloor>f64_round y\<rfloor> * 1000000"
    and "\<bar>Seconds d - x\<bar> < 1 / 1000"
proof -
  have fr: "0 \<le> x - of_int \<lfloor>x\<rfloor>" "x - of_int \<lfloor>x\<rfloor> < 1"
    by linarith+
  have y0: "0 \<le> y" using fr(1) by (simp add: y_def)
  have y1: "y < 1000" using fr(2) by (simp add: y_def)
  note ms = floor_f64_round_bounds [OF y0 y1]
  have w0: "0 \<le> \<lfloor>x\<rfloor>" using assms(1) by simp
  have w1: "\<lfloor>x\<rfloor> < 9223372036" using assms(2) by (simp add: floor_less_iff)
  have m0: "0 \<le> \<lfloor>f64_round y\<rfloor>" using ms(4) by simp
  have m1: "\<lfloor>f64_round y\<rfloor> \<le> 1000"
  proof -
    have "\<lfloor>y\<rfloor> < 1000" using y1 by (simp add: floor_less_iff)
    with ms(2) show ?thesis by linarith
  qed
  have whole: "int64_of_float64 (of_int \<lfloor>x\<rfloor>) = word_of_int \<lfloor>x\<rfloor>"
    using w0 w1 by (intro int64_of_float64_in_range [THEN trans]) (simp_all add: trunc_int_of_int)
  have tr: "trunc_int (f64_round y) = \<lfloor>f64_round y\<rfloor>"
    using ms(4) by (simp add: trunc_int_def)
  have frac: "int64_of_float64 (f64_mul (x - of_int \<lfloor>x\<rfloor>) 1000) = word_of_int \<lfloor>f64_round y\<rfloor>"
    unfolding f64_mul_def y_def [symmetric]
    using m0 m1 by (intro int64_of_float64_in_range [THEN trans]) (simp_all add: tr)
  have d: "d = word_of_int (\<lfloor>x\<rfloor> * 1000000000 + \<lfloor>f64_round y\<rfloor> * 1000000)"
    unfolding d_def whole frac Second_eq Millisecond_eq by simp
  have fits: "- (2 ^ 63) \<le> a * 1000000000 + b * 1000000 \<and> a * 1000000000 + b * 1000000 < 2 ^ 63"
    if "0 \<le> a" "a < 9223372036" "0 \<le> b" "b \<le> 1000" for a b :: int
    using that by simp
  show s: "sint d = \<lfloor>x\<rfloor> * 1000000000 + \<lfloor>f64_round y\<rfloor> * 1000000"
    unfolding d using fits [OF w0 w1 m0 m1] by (intro sint_word_of_int_64) blast+
  have "Seconds d - x = (of_int \<lfloor>f64_round y\<rfloor> - y) / 1000"
    unfolding Seconds_def s y_def by (simp add: field_simps)
  then have "\<bar>Seconds d - x\<bar> = \<bar>of_int \<lfloor>f64_round y\<rfloor> - y\<bar> / 1000"
    by (simp only: abs_divide abs_numeral)
  then show "\<bar>Seconds d - x\<bar> < 1 / 1000"
    using ms(3) by simp
qed

lemma json_yields_eq: "json_yields v b v0 = (None, v)"
  by (simp add: json_yields_def)

section \<open>Decoding a retry-after duration\<close>

lemma TooManyRequests_UnmarshalJSON_ok:
  assumes "json_Unmarshal b \<lparr>TooManyRequests_u.Bucket = '''', TooManyRequests_u.Message = '''',
             TooManyRequests_u.RetryAfter = 0\<rparr> = (None, u)"
  shows "TooManyRequests_UnmarshalJSON json_Unmarshal t b =
    (None, t\<lparr>TooManyRequests.Bucket := TooManyRequests_u.Bucket u,
              TooManyRequests.Message := TooManyRequests_u.Message u,
              TooManyRequests.RetryAfter :=
                int64_of_float64 (fst (Modf (TooManyRequests_u.RetryAfter u))) * Second
                + int64_of_float64 (f64_mul (snd (Modf (TooManyRequests_u.RetryAfter u))) 1000)
                  * Millisecond\<rparr>)"
  using assms by (simp add: TooManyRequests_UnmarshalJSON_def Let_def split_beta)

text \<open>
  Claim C3, as amended. For every \<open>float64\<close> value \<open>x\<close> of \<open>retry_after\<close> with \<open>0 \<le> x\<close>
  and \<open>x < 9223372036\<close> (seconds) that the decoder delivers without error,
  \<open>TooManyRequests.UnmarshalJSON\<close> returns no error and sets \<open>RetryAfter\<close> to the whole
  seconds of \<open>x\<close> plus the milliseconds of its fraction: the fraction is multiplied by 1000
  in floating point and that product is truncated. The seconds are neither rounded nor is
  the fraction dropped, and the duration, read back in seconds, differs from \<open>x\<close> by less
  than one millisecond. (Beyond the bound the \<open>int64\<close> product with \<open>time.Second\<close> wraps
  around: see the counterexample.)
\<close>

theorem retry_after_within_millisecond:
  assumes "json_Unmarshal b \<lparr>TooManyRequests_u.Bucket = '''', TooManyRequests_u.Message = '''',
             TooManyRequests_u.RetryAfter = 0\<rparr> = (None, u)"
    and "is_float64 (TooManyRequests_u.RetryAfter u)"
    and "0 \<le> TooManyRequests_u.RetryAfter u"
    and "TooManyRequests_u.RetryAfter u < 9223372036"
  shows "fst (TooManyRequests_UnmarshalJSON json_Unmarshal t b) = None
    \<and> sint (TooManyRequests.RetryAfter (snd (TooManyRequests_UnmarshalJSON json_Unmarshal t b))) =
        \<lfloor>TooManyRequests_u.RetryAfter u\<rfloor> * 1000000000
        + \<lfloor>f64_mul (TooManyRequests_u.RetryAfter u
                     - of_int \<lfloor>TooManyRequests_u.RetryAfter u\<rfloor>) 1000\<rfloor> * 1000000
    \<and> \<bar>Seconds (TooManyRequests.RetryAfter
                   (snd (TooManyRequests_UnmarshalJSON json_Unmarshal t b)))
         - TooManyRequests_u.RetryAfter u\<bar> < 1 / 1000"
proof -
  let ?x = "TooManyRequests_u.RetryAfter u"
  have r: "TooManyRequests.RetryAfter (snd (TooManyRequests_UnmarshalJSON json_Unmarshal t b)) =
      int64_of_float64 (of_int \<lfloor>?x\<rfloor>) * Second
      + int64_of_float64 (f64_mul (?x - of_int \<lfloor>?x\<rfloor>) 1000) * Millisecond"
    by (simp add: TooManyRequests_UnmarshalJSON_ok [of json_Unmarshal b u t, OF assms(1)] Modf_nonneg [OF assms(3)])
  have e: "fst (TooManyRequests_UnmarshalJSON json_Unmarshal t b) = None"
    by (simp add: TooManyRequests_UnmarshalJSON_ok [of json_Unmarshal b u t, OF assms(1)])
  show ?thesis
    unfolding r f64_mul_def
    using e retry_after_duration [OF assms(3) assms(4)]
    by (simp only: f64_mul_def simp_thms)
qed

lemma is_float64_0009: "is_float64 (5188146770730811 / 576460752303423488)"
  by (rule is_float64I) (code_simp, simp)

lemma f64_mul_0009: "f64_mul (5188146770730811 / 576460752303423488) 1000 = 9"
  by code_simp

text \<open>
  The theorem at the \<open>float64\<close> nearest to 0.009, which lies below 0.009: the floating-point
  product with 1000 is exactly 9, so the result is 9 milliseconds.
\<close>

theorem retry_after_within_millisecond_witness:
  "is_float64 (5188146770730811 / 576460752303423488)
   \<and> fst (TooManyRequests_UnmarshalJSON
        (json_yields (retry_after_payload (5188146770730811 / 576460752303423488)))
        a_TooManyRequests []) = None
   \<and> sint (TooManyRequests.RetryAfter (snd (TooManyRequests_UnmarshalJSON
        (json_yields (retry_after_payload (5188146770730811 / 576460752303423488)))
        a_TooManyRequests []))) = 9000000
   \<and> \<bar>Seconds (TooManyRequests.RetryAfter (snd (TooManyRequests_UnmarshalJSON
        (json_yields (retry_after_payload (5188146770730811 / 576460752303423488)))
        a_TooManyRequests [])))
      - 5188146770730811 / 576460752303423488\<bar> < 1 / 1000"
proof -
  let ?x = "5188146770730811 / 576460752303423488 :: rat"
  have h1: "json_yields (retry_after_payload ?x) []
      \<lparr>TooManyRequests_u.Bucket = '''', TooManyRequests_u.Message = '''',
       TooManyRequests_u.RetryAfter = 0\<rparr> = (None, retry_after_payload ?x)"
    by (simp add: json_yields_def)
  have x: "TooManyRequests_u.RetryAfter (retry_after_payload ?x) = ?x"
    by (simp add: retry_after_payload_def)
  have h2: "is_float64 (TooManyRequests_u.RetryAfter (retry_after_payload ?x))"
    unfolding x by (rule is_float64_0009)
  have h3: "0 \<le> TooManyRequests_u.RetryAfter (retry_after_payload ?x)"
    unfolding x by simp
  have h4: "TooManyRequests_u.RetryAfter (retry_after_payload ?x) < 9223372036"
    unfolding x by simp
  have fl: "\<lfloor>?x\<rfloor> = 0" by code_simp
  show ?thesis
    using retry_after_within_millisecond
      [of "json_yields (retry_after_payload ?x)" "[]" "retry_after_payload ?x" a_TooManyRequests,
       OF h1 h2 h3 h4]
    unfolding x fl by (simp add: f64_mul_0009 is_float64_0009)
qed

text \<open>
  Claim C3 as stated fails at \<open>retry_after = 1e10\<close>, a \<open>float64\<close> the decoder accepts:
  \<open>time.Duration(1e10) * time.Second\<close> is \<open>10 ^ 19\<close>, which wraps around to
  \<open>10 ^ 19 - 2 ^ 64\<close> nanoseconds, a negative duration.
\<close>

theorem retry_after_overflow_counterexample:
  "is_float64 10000000000
   \<and> fst (TooManyRequests_UnmarshalJSON (json_yields (retry_after_payload 10000000000))
        a_TooManyRequests []) = None
   \<and> sint (TooManyRequests.RetryAfter (snd (TooManyRequests_UnmarshalJSON
        (json_yields (retry_after_payload 10000000000)) a_TooManyRequests [])))
      = - 8446744073709551616
   \<and> \<not> \<bar>Seconds (TooManyRequests.RetryAfter (snd (TooManyRequests_UnmarshalJSON
        (json_yields (retry_after_payload 10000000000)) a_TooManyRequests [])))
      - 10000000000\<bar> \<le> 1 / 1000"
proof -
  have f: "is_float64 10000000000" by (rule is_float64I) (code_simp, simp)
  have h1: "json_yields (retry_after_payload 10000000000) []
      \<lparr>TooManyRequests_u.Bucket = '''', TooManyRequests_u.Message = '''',
       TooManyRequests_u.RetryAfter = 0\<rparr> = (None, retry_after_payload 10000000000)"
    by (simp add: json_yields_def)
  have m: "Modf 10000000000 = (10000000000, 0)"
    by (simp add: Modf_def trunc_int_def)
  have i1: "int64_of_float64 10000000000 = 10000000000"
    by (simp add: int64_of_float64_def trunc_int_def)
  have i2: "int64_of_float64 (f64_mul 0 1000) = 0"
    by (simp add: int64_of_float64_def trunc_int_def f64_mul_def f64_round_def)
  note ok = TooManyRequests_UnmarshalJSON_ok
          [of "json_yields (retry_after_payload 10000000000)" "[]"
              "retry_after_payload 10000000000" a_TooManyRequests, OF h1]
  have r: "TooManyRequests.RetryAfter (snd (TooManyRequests_UnmarshalJSON
        (json_yields (retry_after_payload 10000000000)) a_TooManyRequests []))
      = 10000000000 * Second"
    unfolding ok by (simp add: retry_after_payload_def m i1 i2)
  have s: "sint (10000000000 * Second) = - 8446744073709551616"
    by (simp add: Second_eq)
  have e: "fst (TooManyRequests_UnmarshalJSON (json_yields (retry_after_payload 10000000000))
        a_TooManyRequests []) = None"
    unfolding ok by simp
  show ?thesis
    unfolding r Seconds_def s using f e by simp
qed

lemma Modf_3_2: "Modf (3 / 2) = (1, 1 / 2)"
  by code_simp

lemma f64_mul_half_1000: "f64_mul (1 / 2) 1000 = 500"
  by code_simp

lemma int64_of_float64_numeral_small:
  "int64_of_float64 1 = 1" "int64_of_float64 500 = 500" "int64_of_float64 0 = 0"
  by (simp_all add: int64_of_float64_def trunc_int_def)

text \<open>
  Claim C4. When the decoder succeeds on a payload whose \<open>retry_after\<close> is the number 1.5
  (the \<open>float64\<close> \<open>3 / 2\<close>), \<open>TooManyRequests.UnmarshalJSON\<close> returns no error and
  \<open>RetryAfter\<close> is exactly \<open>1 * time.Second + 500 * time.Millisecond\<close>; when it is 0.0,
  \<open>RetryAfter\<close> is the zero duration.
\<close>

theorem retry_after_one_and_a_half_seconds:
  assumes "json_Unmarshal b \<lparr>TooManyRequests_u.Bucket = '''', TooManyRequests_u.Message = '''',
             TooManyRequests_u.RetryAfter = 0\<rparr> = (None, u)"
  shows "(TooManyRequests_u.RetryAfter u = 3 / 2 \<longrightarrow>
            TooManyRequests_UnmarshalJSON json_Unmarshal t b =
              (None, \<lparr>TooManyRequests.Bucket = TooManyRequests_u.Bucket u,
                      TooManyRequests.Message = TooManyRequests_u.Message u,
                      TooManyRequests.RetryAfter = 1 * Second + 500 * Millisecond\<rparr>))
       \<and> (TooManyRequests_u.RetryAfter u = 0 \<longrightarrow>
            TooManyRequests_UnmarshalJSON json_Unmarshal t b =
              (None, \<lparr>TooManyRequests.Bucket = TooManyRequests_u.Bucket u,
                      TooManyRequests.Message = TooManyRequests_u.Message u,
                      TooManyRequests.RetryAfter = 0\<rparr>))
       \<and> is_float64 (3 / 2) \<and> is_float64 0"
proof -
  note ok = TooManyRequests_UnmarshalJSON_ok [of json_Unmarshal b u t, OF assms]
  have m0: "Modf 0 = (0, 0)" by (simp add: Modf_def trunc_int_def)
  have z: "f64_mul 0 1000 = 0" by (simp add: f64_mul_def f64_round_def)
  have a: "TooManyRequests_UnmarshalJSON json_Unmarshal t b =
              (None, \<lparr>TooManyRequests.Bucket = TooManyRequests_u.Bucket u,
                      TooManyRequests.Message = TooManyRequests_u.Message u,
                      TooManyRequests.RetryAfter = 1 * Second + 500 * Millisecond\<rparr>)"
    if "TooManyRequests_u.RetryAfter u = 3 / 2"
    unfolding ok that
    by (cases t) (simp add: Modf_3_2 f64_mul_half_1000 int64_of_float64_numeral_small)
  have c: "TooManyRequests_UnmarshalJSON json_Unmarshal t b =
              (None, \<lparr>TooManyRequests.Bucket = TooManyRequests_u.Bucket u,
                      TooManyRequests.Message = TooManyRequests_u.Message u,
                      TooManyRequests.RetryAfter = 0\<rparr>)"
    if "TooManyRequests_u.RetryAfter u = 0"
    unfolding ok that
    by (cases t) (simp add: m0 z int64_of_float64_numeral_small)
  have f: "is_float64 (3 / 2)" by (rule is_float64I) (code_simp, simp)
  have g: "is_float64 0" by (simp add: is_float64_def f64_round_def)
  from a c f g show ?thesis by blast
qed

theorem retry_after_one_and_a_half_seconds_witness:
  "TooManyRequests_UnmarshalJSON (json_yields (retry_after_payload (3 / 2))) a_TooManyRequests []
     = (None, \<lparr>TooManyRequests.Bucket = ''abc'',
              TooManyRequests.Message = ''You are being rate limited.'',
              TooManyRequests.RetryAfter = 1500000000\<rparr>)
   \<and> TooManyRequests_UnmarshalJSON (json_yields (retry_after_payload 0)) a_TooManyRequests []
     = (None, \<lparr>TooManyRequests.Bucket = ''abc'',
              TooManyRequests.Message = ''You are being rate limited.'',
              TooManyRequests.RetryAfter = 0\<rparr>)"
proof -
  have x: "TooManyRequests_u.RetryAfter (retry_after_payload (3 / 2)) = 3 / 2"
    and z: "TooManyRequests_u.RetryAfter (retry_after_payload 0) = 0"
    by (simp_all add: retry_after_payload_def)
  have a: "TooManyRequests_UnmarshalJSON (json_yields (retry_after_payload (3 / 2)))
      a_TooManyRequests []
     = (None, \<lparr>TooManyRequests.Bucket = ''abc'',
              TooManyRequests.Message = ''You are being rate limited.'',
              TooManyRequests.RetryAfter = 1500000000\<rparr>)"
    using retry_after_one_and_a_half_seconds
      [of "json_yields (retry_after_payload (3 / 2))" "[]" "retry_after_payload (3 / 2)"
          a_TooManyRequests, OF json_yields_eq] x
    by (simp add: retry_after_payload_def Second_eq Millisecond_eq)
  have b: "TooManyRequests_UnmarshalJSON (json_yields (retry_after_payload 0))
      a_TooManyRequests []
     = (None, \<lparr>TooManyRequests.Bucket = ''abc'',
              TooManyRequests.Message = ''You are being rate limited.'',
              TooManyRequests.RetryAfter = 0\<rparr>)"
    using retry_after_one_and_a_half_seconds
      [of "json_yields (retry_after_payload 0)" "[]" "retry_after_payload 0"
          a_TooManyRequests, OF json_yields_eq] z
    by (simp add: retry_after_payload_def)
  from a b show ?thesis by (rule conjI)
qed

section \<open>Decoding rich-presence timestamps\<close>

lemma TimeStamps_UnmarshalJSON_ok:
  assumes "json_Unmarshal b \<lparr>End = 0, Start = 0\<rparr> = (None, temp)"
  shows "TimeStamps_UnmarshalJSON json_Unmarshal t b =
    (None, t\<lparr>EndTimestamp := int64_of_float64 (End temp),
              StartTimestamp := int64_of_float64 (Start temp)\<rparr>)"
  using assms by (simp add: TimeStamps_UnmarshalJSON_def Let_def)

lemma f64_round_timestamp_exact: "f64_round 1609459200000 = 1609459200000"
  by code_simp

lemma f64_round_timestamp_frac: "f64_round (16094592005007 / 10) = 6592344885250867 / 4096"
  by code_simp

lemma int64_of_float64_timestamp_exact: "int64_of_float64 1609459200000 = 1609459200000"
  by (simp add: int64_of_float64_def trunc_int_def)

lemma int64_of_float64_timestamp_frac: "int64_of_float64 (6592344885250867 / 4096) = 1609459200500"
  by code_simp

text \<open>
  Claim C5. \<open>TimeStamps.UnmarshalJSON\<close> stores \<open>int64(temp.End)\<close> and
  \<open>int64(temp.Start)\<close>, and that conversion truncates, never rounds: every \<open>float64\<close>
  that has a fraction, and every value within the \<open>int64\<close> range, is taken to its integer
  part towards zero (the floor of a non-negative value, the ceiling of a negative one).
  The \<open>float64\<close> for \<open>1609459200000.0\<close> becomes 1609459200000 and the \<open>float64\<close>
  nearest to \<open>1609459200500.7\<close> becomes 1609459200500.
\<close>

theorem timestamps_are_truncated:
  assumes "json_Unmarshal b \<lparr>End = 0, Start = 0\<rparr> = (None, temp)"
  shows "TimeStamps_UnmarshalJSON json_Unmarshal t b =
           (None, \<lparr>EndTimestamp = int64_of_float64 (End temp),
                   StartTimestamp = int64_of_float64 (Start temp)\<rparr>)
    \<and> (is_float64 f \<and> of_int \<lfloor>f\<rfloor> \<noteq> f \<longrightarrow>
          sint (int64_of_float64 f) = (if 0 \<le> f then \<lfloor>f\<rfloor> else \<lceil>f\<rceil>))
    \<and> (- (2 ^ 63) \<le> f \<and> f < 2 ^ 63 \<longrightarrow>
          sint (int64_of_float64 f) = (if 0 \<le> f then \<lfloor>f\<rfloor> else \<lceil>f\<rceil>))
    \<and> int64_of_float64 (f64_round 1609459200000) = 1609459200000
    \<and> int64_of_float64 (f64_round (16094592005007 / 10)) = 1609459200500"
proof -
  have "TimeStamps_UnmarshalJSON json_Unmarshal t b =
           (None, \<lparr>EndTimestamp = int64_of_float64 (End temp),
                   StartTimestamp = int64_of_float64 (Start temp)\<rparr>)"
    unfolding TimeStamps_UnmarshalJSON_ok [of json_Unmarshal b temp t, OF assms]
    by (cases t) simp
  moreover have in_range: "sint (int64_of_float64 f) = (if 0 \<le> f then \<lfloor>f\<rfloor> else \<lceil>f\<rceil>)"
    if "- (2 ^ 63) \<le> f \<and> f < 2 ^ 63"
    using that sint_int64_of_float64 [of f] by (simp add: trunc_int_def)
  moreover have "sint (int64_of_float64 f) = (if 0 \<le> f then \<lfloor>f\<rfloor> else \<lceil>f\<rceil>)"
    if "is_float64 f \<and> of_int \<lfloor>f\<rfloor> \<noteq> f"
  proof -
    have "\<not> 2 ^ 52 \<le> \<bar>f\<bar>"
      using that float64_large_is_integer [of f] by blast
    then have "\<bar>f\<bar> < 2 ^ 52" by simp
    then have "- (2 ^ 63) \<le> f \<and> f < 2 ^ 63" by (simp add: abs_less_iff)
    then show ?thesis by (rule in_range)
  qed
  moreover have "int64_of_float64 (f64_round 1609459200000) = 1609459200000"
    by (simp only: f64_round_timestamp_exact int64_of_float64_timestamp_exact)
  moreover have "int64_of_float64 (f64_round (16094592005007 / 10)) = 1609459200500"
    by (simp only: f64_round_timestamp_frac int64_of_float64_timestamp_frac)
  ultimately show ?thesis by blast
qed

text \<open>
  The theorem on a payload with the two timestamps of the specification, and at the
  \<open>float64\<close>s \<open>2.5\<close> and \<open>-2.5\<close>, which become 2 and -2.
\<close>

theorem timestamps_are_truncated_witness:
  "TimeStamps_UnmarshalJSON
     (json_yields \<lparr>End = f64_round 1609459200000, Start = f64_round (16094592005007 / 10)\<rparr>)
     a_TimeStamps []
   = (None, \<lparr>EndTimestamp = 1609459200000, StartTimestamp = 1609459200500\<rparr>)
   \<and> is_float64 (5 / 2) \<and> is_float64 (- 5 / 2)
   \<and> sint (int64_of_float64 (- 5 / 2)) = - 2
   \<and> sint (int64_of_float64 (5 / 2)) = 2"
proof -
  let ?temp = "\<lparr>End = f64_round 1609459200000, Start = f64_round (16094592005007 / 10)\<rparr>"
  have h: "json_yields ?temp [] \<lparr>End = 0, Start = 0\<rparr> = (None, ?temp)"
    by (simp add: json_yields_def)
  have f1: "is_float64 (- 5 / 2)" by (rule is_float64I) (code_simp, simp)
  have f2: "is_float64 (5 / 2)" by (rule is_float64I) (code_simp, simp)
  have c1: "\<lceil>- 5 / 2 :: rat\<rceil> = - 2" by code_simp
  have c2: "\<lfloor>5 / 2 :: rat\<rfloor> = 2" by code_simp
  have c3: "\<lfloor>- 5 / 2 :: rat\<rfloor> = - 3" by code_simp
  have n1: "of_int \<lfloor>- 5 / 2 :: rat\<rfloor> \<noteq> (- 5 / 2 :: rat)" unfolding c3 by simp
  have r2: "- (2 ^ 63) \<le> (5 / 2 :: rat) \<and> (5 / 2 :: rat) < 2 ^ 63" by simp
  note th1 = timestamps_are_truncated
    [of "json_yields ?temp" "[]" ?temp a_TimeStamps "- 5 / 2", OF h]
  note th2 = timestamps_are_truncated
    [of "json_yields ?temp" "[]" ?temp a_TimeStamps "5 / 2", OF h]
  note res = th1 [THEN conjunct1]
  note frac = th1 [THEN conjunct2, THEN conjunct1]
  note rng = th2 [THEN conjunct2, THEN conjunct2, THEN conjunct1]
  note ex1 = th1 [THEN conjunct2, THEN conjunct2, THEN conjunct2, THEN conjunct1]
  note ex2 = th1 [THEN conjunct2, THEN conjunct2, THEN conjunct2, THEN conjunct2]
  have a: "TimeStamps_UnmarshalJSON (json_yields ?temp) a_TimeStamps []
   = (None, \<lparr>EndTimestamp = 1609459200000, StartTimestamp = 1609459200500\<rparr>)"
    unfolding res by (simp add: ex1 ex2)
  have "sint (int64_of_float64 (- 5 / 2))
        = (if 0 \<le> (- 5 / 2 :: rat) then \<lfloor>- 5 / 2 :: rat\<rfloor> else \<lceil>- 5 / 2 :: rat\<rceil>)"
    using frac f1 n1 by (rule mp [OF _ conjI])
  then have b: "sint (int64_of_float64 (- 5 / 2)) = - 2"
    unfolding c1 by simp
  have "sint (int64_of_float64 (5 / 2))
        = (if 0 \<le> (5 / 2 :: rat) then \<lfloor>5 / 2 :: rat\<rfloor> else \<lceil>5 / 2 :: rat\<rceil>)"
    using rng r2 by (rule mp)
  then have c: "sint (int64_of_float64 (5 / 2)) = 2"
    unfolding c2 by simp
  from a f2 f1 b c show ?thesis by (intro conjI)
qed

section \<open>Decoding errors\<close>

text \<open>
  Claim C8. For every input \<open>b\<close>, \<open>TimeStamps.UnmarshalJSON\<close> and
  \<open>TooManyRequests.UnmarshalJSON\<close> return exactly the error of \<open>json.Unmarshal\<close> on the
  shadow struct: a non-nil error when and only when the parse fails, and that very error.
  When it is non-nil the target struct is left as it was.
\<close>

theorem UnmarshalJSON_propagates_parse_error:
  "fst (TimeStamps_UnmarshalJSON json_Unmarshal t b)
     = fst (json_Unmarshal b \<lparr>End = 0, Start = 0\<rparr>)
   \<and> (fst (json_Unmarshal b \<lparr>End = 0, Start = 0\<rparr>) \<noteq> None \<longrightarrow>
        snd (TimeStamps_UnmarshalJSON json_Unmarshal t b) = t)
   \<and> fst (TooManyRequests_UnmarshalJSON json_Unmarshal' t' b)
     = fst (json_Unmarshal' b \<lparr>TooManyRequests_u.Bucket = '''',
              TooManyRequests_u.Message = '''', TooManyRequests_u.RetryAfter = 0\<rparr>)
   \<and> (fst (json_Unmarshal' b \<lparr>TooManyRequests_u.Bucket = '''',
              TooManyRequests_u.Message = '''', TooManyRequests_u.RetryAfter = 0\<rparr>) \<noteq> None \<longrightarrow>
        snd (TooManyRequests_UnmarshalJSON json_Unmarshal' t' b) = t')"
  by (simp add: TimeStamps_UnmarshalJSON_def TooManyRequests_UnmarshalJSON_def Let_def
      split_beta)

theorem UnmarshalJSON_propagates_parse_error_witness:
  "TimeStamps_UnmarshalJSON (json_fails (Error ''unexpected end of JSON input'')) a_TimeStamps []
     = (Some (Error ''unexpected end of JSON input''), a_TimeStamps)
   \<and> TooManyRequests_UnmarshalJSON (json_fails (Error ''unexpected end of JSON input''))
       a_TooManyRequests []
     = (Some (Error ''unexpected end of JSON input''), a_TooManyRequests)
   \<and> fst (TimeStamps_UnmarshalJSON (json_yields \<lparr>End = 2, Start = 1\<rparr>) a_TimeStamps []) = None
   \<and> fst (TooManyRequests_UnmarshalJSON (json_yields (retry_after_payload 1)) a_TooManyRequests [])
     = None"
proof -
  let ?e = "Error ''unexpected end of JSON input''"
  note f = UnmarshalJSON_propagates_parse_error
    [of "json_fails ?e" a_TimeStamps "[]" "json_fails ?e" a_TooManyRequests]
  note y = UnmarshalJSON_propagates_parse_error
    [of "json_yields \<lparr>End = 2, Start = 1\<rparr>" a_TimeStamps "[]"
        "json_yields (retry_after_payload 1)" a_TooManyRequests]
  have "fst (TimeStamps_UnmarshalJSON (json_fails ?e) a_TimeStamps []) = Some ?e"
    and "snd (TimeStamps_UnmarshalJSON (json_fails ?e) a_TimeStamps []) = a_TimeStamps"
    and "fst (TooManyRequests_UnmarshalJSON (json_fails ?e) a_TooManyRequests []) = Some ?e"
    and "snd (TooManyRequests_UnmarshalJSON (json_fails ?e) a_TooManyRequests [])
      = a_TooManyRequests"
    using f by (simp_all add: json_fails_def)
  moreover have "fst (TimeStamps_UnmarshalJSON (json_yields \<lparr>End = 2, Start = 1\<rparr>) a_TimeStamps [])
      = None"
    and "fst (TooManyRequests_UnmarshalJSON (json_yields (retry_after_payload 1))
      a_TooManyRequests []) = None"
    using y by (simp_all add: json_yields_def)
  ultimately show ?thesis by (simp add: prod_eq_iff)
qed

section \<open>The permission check\<close>

text \<open>
  Claim C6. \<open>hasPermission(mask, bit)\<close> holds if and only if \<open>(mask & bit) == bit\<close>, that
  is, if and only if every bit set in \<open>bit\<close> is set in \<open>mask\<close>; it is false as soon as
  one bit of a multi-bit argument is missing from the mask.
\<close>

theorem hasPermission_iff_all_bits:
  "(hasPermission m b \<longleftrightarrow> m AND b = b)
   \<and> (hasPermission m b \<longleftrightarrow> (\<forall>n. bit b n \<longrightarrow> bit m n))
   \<and> ((\<exists>n. bit b n \<and> \<not> bit m n) \<longrightarrow> \<not> hasPermission m b)"
proof -
  have "m AND b = b \<longleftrightarrow> (\<forall>n. bit b n \<longrightarrow> bit m n)"
  proof
    assume "m AND b = b"
    then have "bit (m AND b) n = bit b n" for n by simp
    then have "(bit m n \<and> bit b n) = bit b n" for n by (simp add: bit_and_iff)
    then show "\<forall>n. bit b n \<longrightarrow> bit m n" by blast
  next
    assume "\<forall>n. bit b n \<longrightarrow> bit m n"
    then show "m AND b = b" by (intro bit_eqI) (auto simp add: bit_and_iff)
  qed
  then show ?thesis by (auto simp add: hasPermission_def)
qed

theorem hasPermission_iff_all_bits_witness:
  "hasPermission PermissionAll (PermissionSendMessages OR PermissionManageMessages)
   \<and> \<not> hasPermission PermissionSendMessages (PermissionSendMessages OR PermissionManageMessages)
   \<and> hasPermission PermissionSendMessages PermissionSendMessages"
proof -
  have 1: "PermissionAll AND (PermissionSendMessages OR PermissionManageMessages)
      = (PermissionSendMessages OR PermissionManageMessages)"
    by (simp add: PermissionAll_value PermissionSendMessages_def PermissionManageMessages_def)
  have 2: "PermissionSendMessages AND (PermissionSendMessages OR PermissionManageMessages)
      \<noteq> (PermissionSendMessages OR PermissionManageMessages)"
    by (simp add: PermissionSendMessages_def PermissionManageMessages_def)
  show ?thesis
    using 1 2
      hasPermission_iff_all_bits [of PermissionAll "PermissionSendMessages OR PermissionManageMessages"]
      hasPermission_iff_all_bits [of PermissionSendMessages
        "PermissionSendMessages OR PermissionManageMessages"]
      hasPermission_iff_all_bits [of PermissionSendMessages PermissionSendMessages]
    by simp
qed

section \<open>Mentions\<close>

lemma Sprintf_channel: "Sprintf ''<#%s>'' [s] = ''<#'' @ s @ ''>''"
  by simp

lemma Sprintf_role: "Sprintf ''<@&%s>'' [s] = ''<@&'' @ s @ ''>''"
  by simp

text \<open>
  Claim C7. For every identifier, \<open>Channel.Mention\<close> returns \<open><#\<close> followed by the
  channel's ID and \<open>>\<close>, \<open>Role.Mention\<close> returns \<open><@&\<close>, the role's ID and \<open>>\<close>, and
  \<open>Member.Mention\<close> of a member whose User has that ID returns \<open><@!\<close>, the ID and \<open>>\<close>.
  The identifier appears as it is, whatever its bytes.
\<close>

theorem Mention_formats:
  "Channel_Mention c = Inr (''<#'' @ Channel.ID c @ ''>'')
   \<and> Role_Mention r = Inr (''<@&'' @ Role.ID r @ ''>'')
   \<and> (Member.User m = Some u \<longrightarrow> Member_Mention m = Inr (''<@!'' @ User.ID u @ ''>''))"
  by (simp add: Channel_Mention_def Role_Mention_def Member_Mention_def)

theorem Mention_formats_witness:
  "Channel_Mention (a_Channel ''123'') = Inr ''<#123>''
   \<and> Role_Mention (a_Role ''456'') = Inr ''<@&456>''
   \<and> Member_Mention (a_Member (Some \<lparr>User.ID = ''789''\<rparr>)) = Inr ''<@!789>''"
  using Mention_formats [of "a_Channel ''123''" "a_Role ''456''"
      "a_Member (Some \<lparr>User.ID = ''789''\<rparr>)" "\<lparr>User.ID = ''789''\<rparr>"]
  by (simp add: a_Channel_def a_Role_def a_Member_def)



section \<open>Decoding an activity\<close>

lemma sint_times_million:
  fixes c :: int64
  shows "sint (c * 1000000) = sint c * 1000000
     \<longleftrightarrow> - 9223372036854 \<le> sint c \<and> sint c \<le> 9223372036854"
proof
  assume eq: "sint (c * 1000000) = sint c * 1000000"
  have "- (2 ^ 63) \<le> sint (c * 1000000)" "sint (c * 1000000) < 2 ^ 63"
    using sint_ge [of "c * 1000000"] sint_lt [of "c * 1000000"] by simp_all
  then show "- 9223372036854 \<le> sint c \<and> sint c \<le> 9223372036854"
    unfolding eq by simp
next
  assume r: "- 9223372036854 \<le> sint c \<and> sint c \<le> 9223372036854"
  have m: "sint (1000000 :: int64) = 1000000" by simp
  have "sint (c * 1000000) = signed_take_bit 63 (sint c * 1000000)"
    by (simp add: sint_word_mult m)
  also have "\<dots> = sint c * 1000000"
    using r by (intro signed_take_bit_int_eq_self) simp_all
  finally show "sint (c * 1000000) = sint c * 1000000" .
qed

lemma time_Unix_0: "time_Unix 0 n = UnixNano (sint n)"
  by (simp add: time_Unix_def)

lemma Activity_UnmarshalJSON_ok:
  assumes "json_Unmarshal b Activity_temp_zero = (None, temp)"
  shows "Activity_UnmarshalJSON json_Unmarshal activity b =
    (None,
     \<lparr>Activity.Name = Activity_temp.Name temp,
      Activity.Type = Activity_temp.Type temp,
      Activity.URL = Activity_temp.URL temp,
      Activity.CreatedAt = time_Unix 0 (Activity_temp.CreatedAt temp * 1000000),
      Activity.ApplicationID = Activity_temp.ApplicationID temp,
      Activity.State = Activity_temp.State temp,
      Activity.Details = Activity_temp.Details temp,
      Activity.Timestamps = Activity_temp.Timestamps temp,
      Activity.Emoji = Activity_temp.Emoji temp,
      Activity.Party = Activity_temp.Party temp,
      Activity.Assets = Activity_temp.Assets temp,
      Activity.Secrets = Activity_temp.Secrets temp,
      Activity.Instance = Activity_temp.Instance temp,
      Activity.Flags = Activity_temp.Flags temp\<rparr>)"
  using assms by (cases activity) (simp add: Activity_UnmarshalJSON_def Let_def)

text \<open>
  Claim C10, as amended. For every payload the decoder delivers without error and whose
  \<open>created_at\<close> lies between -9223372036854 and 9223372036854 milliseconds,
  \<open>Activity.UnmarshalJSON\<close> returns no error, sets \<open>CreatedAt\<close> to the instant
  \<open>created_at * 1000000\<close> nanoseconds after the Unix epoch and copies the thirteen other
  fields unchanged. The bound is exact: for every \<open>created_at\<close> outside of it the \<open>int64\<close>
  product wraps around and \<open>CreatedAt\<close> is a different instant.
\<close>

theorem Activity_created_at_milliseconds:
  assumes "json_Unmarshal b Activity_temp_zero = (None, temp)"
  shows "(- 9223372036854 \<le> sint (Activity_temp.CreatedAt temp)
          \<and> sint (Activity_temp.CreatedAt temp) \<le> 9223372036854 \<longrightarrow>
          Activity_UnmarshalJSON json_Unmarshal activity b =
            (None,
             \<lparr>Activity.Name = Activity_temp.Name temp,
              Activity.Type = Activity_temp.Type temp,
              Activity.URL = Activity_temp.URL temp,
              Activity.CreatedAt = UnixNano (sint (Activity_temp.CreatedAt temp) * 1000000),
              Activity.ApplicationID = Activity_temp.ApplicationID temp,
              Activity.State = Activity_temp.State temp,
              Activity.Details = Activity_temp.Details temp,
              Activity.Timestamps = Activity_temp.Timestamps temp,
              Activity.Emoji = Activity_temp.Emoji temp,
              Activity.Party = Activity_temp.Party temp,
              Activity.Assets = Activity_temp.Assets temp,
              Activity.Secrets = Activity_temp.Secrets temp,
              Activity.Instance = Activity_temp.Instance temp,
              Activity.Flags = Activity_temp.Flags temp\<rparr>))
    \<and> (\<not> (- 9223372036854 \<le> sint (Activity_temp.CreatedAt temp)
            \<and> sint (Activity_temp.CreatedAt temp) \<le> 9223372036854) \<longrightarrow>
          Activity.CreatedAt (snd (Activity_UnmarshalJSON json_Unmarshal activity b))
            \<noteq> UnixNano (sint (Activity_temp.CreatedAt temp) * 1000000))"
  unfolding Activity_UnmarshalJSON_ok [of json_Unmarshal b temp activity, OF assms] time_Unix_0
  using sint_times_million [of "Activity_temp.CreatedAt temp"]
  by simp

theorem Activity_created_at_milliseconds_witness:
  "Activity_UnmarshalJSON (json_yields (activity_payload 1609459200000)) an_Activity []
     = (None,
        \<lparr>Activity.Name = ''Chess'', Activity.Type = 0, Activity.URL = '''',
         Activity.CreatedAt = UnixNano 1609459200000000000, Activity.ApplicationID = '''',
         Activity.State = '''', Activity.Details = '''',
         Activity.Timestamps = \<lparr>EndTimestamp = 0, StartTimestamp = 1609459200000\<rparr>,
         Activity.Emoji = Activity_temp.Emoji Activity_temp_zero,
         Activity.Party = \<lparr>Party.ID = ''p1'', Party.Size = [1, 4]\<rparr>,
         Activity.Assets = Activity_temp.Assets Activity_temp_zero,
         Activity.Secrets = Activity_temp.Secrets Activity_temp_zero,
         Activity.Instance = False, Activity.Flags = 0\<rparr>)
   \<and> Activity.CreatedAt (snd (Activity_UnmarshalJSON
         (json_yields (activity_payload (- 9223372036855))) an_Activity []))
       \<noteq> UnixNano (- 9223372036855000000)"
proof -
  have c1: "Activity_temp.CreatedAt (activity_payload 1609459200000) = 1609459200000"
    and c2: "Activity_temp.CreatedAt (activity_payload (- 9223372036855)) = - 9223372036855"
    by (simp_all add: activity_payload_def)
  have s1: "sint (1609459200000 :: int64) = 1609459200000"
    and s2: "sint (- 9223372036855 :: int64) = - 9223372036855"
    by simp_all
  note in_range = Activity_created_at_milliseconds
    [of "json_yields (activity_payload 1609459200000)" "[]" "activity_payload 1609459200000"
        an_Activity, OF json_yields_eq, unfolded c1 s1]
  note out_of_range = Activity_created_at_milliseconds
    [of "json_yields (activity_payload (- 9223372036855))" "[]"
        "activity_payload (- 9223372036855)" an_Activity, OF json_yields_eq, unfolded c2 s2]
  have a: "Activity_UnmarshalJSON (json_yields (activity_payload 1609459200000)) an_Activity []
     = (None,
        \<lparr>Activity.Name = ''Chess'', Activity.Type = 0, Activity.URL = '''',
         Activity.CreatedAt = UnixNano 1609459200000000000, Activity.ApplicationID = '''',
         Activity.State = '''', Activity.Details = '''',
         Activity.Timestamps = \<lparr>EndTimestamp = 0, StartTimestamp = 1609459200000\<rparr>,
         Activity.Emoji = Activity_temp.Emoji Activity_temp_zero,
         Activity.Party = \<lparr>Party.ID = ''p1'', Party.Size = [1, 4]\<rparr>,
         Activity.Assets = Activity_temp.Assets Activity_temp_zero,
         Activity.Secrets = Activity_temp.Secrets Activity_temp_zero,
         Activity.Instance = False, Activity.Flags = 0\<rparr>)"
    using in_range by (simp add: activity_payload_def Activity_temp_zero_def)
  have b: "Activity.CreatedAt (snd (Activity_UnmarshalJSON
         (json_yields (activity_payload (- 9223372036855))) an_Activity []))
       \<noteq> UnixNano (- 9223372036855000000)"
    using out_of_range by simp
  from a b show ?thesis by (rule conjI)
qed

text \<open>
  Claim C10 as stated fails at \<open>created_at = 9223372036855\<close>, which an \<open>int64\<close> holds:
  the product with 1000000 wraps around and \<open>CreatedAt\<close> lies before the epoch, in 1677.
\<close>

theorem Activity_created_at_overflow_counterexample:
  "fst (Activity_UnmarshalJSON (json_yields (activity_payload 9223372036855)) an_Activity [])
     = None
   \<and> Activity.CreatedAt (snd (Activity_UnmarshalJSON
         (json_yields (activity_payload 9223372036855)) an_Activity []))
       = UnixNano (- 9223372036854551616)
   \<and> Activity.CreatedAt (snd (Activity_UnmarshalJSON
         (json_yields (activity_payload 9223372036855)) an_Activity []))
       \<noteq> UnixNano (9223372036855 * 1000000)"
proof -
  have c: "Activity_temp.CreatedAt (activity_payload 9223372036855) = 9223372036855"
    by (simp add: activity_payload_def)
  have s: "sint (9223372036855 * 1000000 :: int64) = - 9223372036854551616"
    by simp
  show ?thesis
    unfolding Activity_UnmarshalJSON_ok
      [of "json_yields (activity_payload 9223372036855)" "[]" "activity_payload 9223372036855"
          an_Activity, OF json_yields_eq] c time_Unix_0 s
    by simp
qed

end
